theory Spec2Isabelle
  imports Complex_Main "HOL-Library.Word"
begin

unbundle bit_operations_syntax

section \<open>Bytes, typed arrays and opcodes\<close>

text \<open>
  The grid, the interaction buffer and every tape are \<^verbatim>\<open>Uint8Array\<close>s: lists of 8-bit
  words.  JavaScript numbers that hold integers (indices, counters, pointers) are \<^typ>\<open>int\<close>;
  \<^verbatim>\<open>a & b\<close> on them is \<open>AND\<close> on \<^typ>\<open>int\<close> (two's complement), which agrees with
  JavaScript's 32-bit \<^verbatim>\<open>&\<close> as long as both operands fit 32 bits.  Numbers that hold
  fractions (rates, entropies, averages) are \<^typ>\<open>real\<close>: rounding of doubles is not modelled.
\<close>

type_synonym byte = "8 word"

abbreviation CMD_LEFT :: byte where "CMD_LEFT \<equiv> 60"
abbreviation CMD_RIGHT :: byte where "CMD_RIGHT \<equiv> 62"
abbreviation CMD_H1_DEC :: byte where "CMD_H1_DEC \<equiv> 123"
abbreviation CMD_H1_INC :: byte where "CMD_H1_INC \<equiv> 125"
abbreviation CMD_DEC :: byte where "CMD_DEC \<equiv> 45"
abbreviation CMD_INC :: byte where "CMD_INC \<equiv> 43"
abbreviation CMD_COPY_0_TO_1 :: byte where "CMD_COPY_0_TO_1 \<equiv> 46"
abbreviation CMD_COPY_1_TO_0 :: byte where "CMD_COPY_1_TO_0 \<equiv> 44"
abbreviation CMD_JZ :: byte where "CMD_JZ \<equiv> 91"
abbreviation CMD_JNZ :: byte where "CMD_JNZ \<equiv> 93"

definition VALID_OPS :: "byte list" where
  "VALID_OPS = [CMD_LEFT, CMD_RIGHT, CMD_H1_DEC, CMD_H1_INC, CMD_DEC, CMD_INC,
                CMD_COPY_0_TO_1, CMD_COPY_1_TO_0, CMD_JZ, CMD_JNZ]"

text \<open>
  Reading a typed array outside its range gives \<^verbatim>\<open>undefined\<close> (here \<open>None\<close>); writing
  outside its range does nothing.  \<^verbatim>\<open>undefined\<close> stored into a \<^verbatim>\<open>Uint8Array\<close> becomes 0.
\<close>

definition rd :: "'a list \<Rightarrow> int \<Rightarrow> 'a option" where
  "rd a i = (if 0 \<le> i \<and> i < int (length a) then Some (a ! nat i) else None)"

definition wr :: "'a list \<Rightarrow> int \<Rightarrow> 'a \<Rightarrow> 'a list" where
  "wr a i v = (if 0 \<le> i \<and> i < int (length a) then a[nat i := v] else a)"

definition toU8 :: "byte option \<Rightarrow> byte" where
  "toU8 v = (case v of None \<Rightarrow> 0 | Some b \<Rightarrow> b)"

text \<open>A value stored into an \<^verbatim>\<open>Int16Array\<close> and read back.\<close>

definition int16 :: "int \<Rightarrow> int" where
  "int16 v = sint (word_of_int v :: 16 word)"

section \<open>The interpreter\<close>

record vm =
  tape :: "byte list"
  head0 :: int
  head1 :: int
  ip :: int
  complexity :: int
  copies :: int
  neighborWrites :: int

text \<open>The state \<^verbatim>\<open>execute\<close> starts from: every local variable is 0.\<close>

definition initVm :: "byte list \<Rightarrow> vm" where
  "initVm t = \<lparr>tape = t, head0 = 0, head1 = 0, ip = 0,
               complexity = 0, copies = 0, neighborWrites = 0\<rparr>"

text \<open>
  The two bracket scans, \<^verbatim>\<open>while (depth > 0 && scanned < len)\<close>.  Both versions of
  \<^verbatim>\<open>execute\<close> contain them: the jump-table version of \<^verbatim>\<open>src/unnamed/part_005\<close> in its
  pre-pass, the version of \<^verbatim>\<open>src/services/bffSimulation.ts\<close> inside the main loop.
  The result is the pair of \<^verbatim>\<open>depth\<close> and \<^verbatim>\<open>scanIp\<close> on leaving the loop.
\<close>

function scanForward :: "byte list \<Rightarrow> int \<Rightarrow> int \<Rightarrow> int \<Rightarrow> int \<Rightarrow> int \<Rightarrow> int \<times> int" where
  "scanForward t len msk depth scanIp scanned =
     (if depth > 0 \<and> scanned < len then
        (let instr = rd t (scanIp AND msk) in
           scanForward t len msk
             (if instr = Some CMD_JZ then depth + 1
              else if instr = Some CMD_JNZ then depth - 1 else depth)
             (scanIp + 1) (scanned + 1))
      else (depth, scanIp))"
  by pat_completeness auto
termination
  by (relation "measure (\<lambda>(t, len, msk, depth, scanIp, scanned). nat (len - scanned))") auto

function scanBackward :: "byte list \<Rightarrow> int \<Rightarrow> int \<Rightarrow> int \<Rightarrow> int \<Rightarrow> int \<Rightarrow> int \<times> int" where
  "scanBackward t len msk depth scanIp scanned =
     (if depth > 0 \<and> scanned < len then
        (let instr = rd t (scanIp AND msk) in
           scanBackward t len msk
             (if instr = Some CMD_JNZ then depth + 1
              else if instr = Some CMD_JZ then depth - 1 else depth)
             (scanIp - 1) (scanned + 1))
      else (depth, scanIp))"
  by pat_completeness auto
termination
  by (relation "measure (\<lambda>(t, len, msk, depth, scanIp, scanned). nat (len - scanned))") auto

declare scanForward.simps [simp del]
declare scanBackward.simps [simp del]

subsection \<open>\<^verbatim>\<open>execute\<close> of \<^verbatim>\<open>src/unnamed/part_005\<close>: jump table built before the main loop\<close>

text \<open>
  The pre-pass first sets every entry of the jump table to \<open>-1\<close> and then fills the entry of
  each bracket from a scan of the tape as it is before the main loop; entry \<open>i\<close> depends on
  the tape and \<open>i\<close> only.  The table is an \<^verbatim>\<open>Int16Array\<close> of \<open>2 * tapeSize\<close> entries owned by
  the engine; since \<^verbatim>\<open>execute\<close> overwrites all of it, the model builds it afresh.
\<close>

definition jumpEntry :: "byte list \<Rightarrow> int \<Rightarrow> int \<Rightarrow> int \<Rightarrow> int" where
  "jumpEntry t len msk i =
     (if rd t i = Some CMD_JZ then
        (case scanForward t len msk 1 (i + 1) 0 of
           (depth, scanIp) \<Rightarrow> if depth = 0 then int16 ((scanIp - 1) AND msk) else - 1)
      else if rd t i = Some CMD_JNZ then
        (case scanBackward t len msk 1 (i - 1) 0 of
           (depth, scanIp) \<Rightarrow> if depth = 0 then int16 ((scanIp + 1) AND msk) else - 1)
      else - 1)"

definition buildJumps :: "byte list \<Rightarrow> int \<Rightarrow> int \<Rightarrow> int list" where
  "buildJumps t len msk = map (\<lambda>i. jumpEntry t len msk (int i)) [0..<nat len]"

text \<open>The end of one loop iteration: \<^verbatim>\<open>if (isValidOp) complexity++; ip++\<close>.\<close>

definition finish :: "bool \<Rightarrow> vm \<Rightarrow> vm" where
  "finish isValidOp s =
     s\<lparr>complexity := (if isValidOp then complexity s + 1 else complexity s), ip := ip s + 1\<rparr>"

text \<open>\<^verbatim>\<open>(tape[h] - 1) & 255\<close> and \<^verbatim>\<open>(tape[h] + 1) & 255\<close>; on \<^verbatim>\<open>undefined\<close> both are 0.\<close>

definition decByte :: "byte option \<Rightarrow> byte" where
  "decByte v = (case v of None \<Rightarrow> 0 | Some b \<Rightarrow> b - 1)"

definition incByte :: "byte option \<Rightarrow> byte" where
  "incByte v = (case v of None \<Rightarrow> 0 | Some b \<Rightarrow> b + 1)"

text \<open>
  One iteration of the main loop.  \<open>None\<close> is the \<^verbatim>\<open>return\<close> inside the switch (a taken
  bracket without a jump target): \<^verbatim>\<open>execute\<close> then returns the counters as they are.
  The jump table has as many entries as the tape, so \<open>jumps ! nat currentIp\<close> is read within
  range whenever the instruction was.
\<close>

definition execStep :: "int list \<Rightarrow> int \<Rightarrow> int \<Rightarrow> vm \<Rightarrow> vm option" where
  "execStep jumps msk neighborThreshold s =
     (let currentIp = ip s AND msk;
          instr = rd (tape s) currentIp
      in
      if instr = Some CMD_LEFT then Some (finish True (s\<lparr>head0 := (head0 s - 1) AND msk\<rparr>))
      else if instr = Some CMD_RIGHT then Some (finish True (s\<lparr>head0 := (head0 s + 1) AND msk\<rparr>))
      else if instr = Some CMD_H1_DEC then Some (finish True (s\<lparr>head1 := (head1 s - 1) AND msk\<rparr>))
      else if instr = Some CMD_H1_INC then Some (finish True (s\<lparr>head1 := (head1 s + 1) AND msk\<rparr>))
      else if instr = Some CMD_DEC then
        Some (finish True (s\<lparr>tape := wr (tape s) (head0 s AND msk)
                                      (decByte (rd (tape s) (head0 s AND msk)))\<rparr>))
      else if instr = Some CMD_INC then
        Some (finish True (s\<lparr>tape := wr (tape s) (head0 s AND msk)
                                      (incByte (rd (tape s) (head0 s AND msk)))\<rparr>))
      else if instr = Some CMD_COPY_0_TO_1 then
        Some (finish True
          (s\<lparr>tape := wr (tape s) (head1 s AND msk) (toU8 (rd (tape s) (head0 s AND msk))),
             copies := copies s + 1,
             neighborWrites := (if (head1 s AND msk) \<ge> neighborThreshold
                                then neighborWrites s + 1 else neighborWrites s)\<rparr>))
      else if instr = Some CMD_COPY_1_TO_0 then
        Some (finish True
          (s\<lparr>tape := wr (tape s) (head0 s AND msk) (toU8 (rd (tape s) (head1 s AND msk))),
             copies := copies s + 1\<rparr>))
      else if instr = Some CMD_JZ then
        (if rd (tape s) (head0 s AND msk) = Some 0 then
           (let target = jumps ! nat currentIp in
              if target \<noteq> - 1 then Some (finish True (s\<lparr>ip := target\<rparr>)) else None)
         else Some (finish True s))
      else if instr = Some CMD_JNZ then
        (if rd (tape s) (head0 s AND msk) \<noteq> Some 0 then
           (let target = jumps ! nat currentIp in
              if target \<noteq> - 1 then Some (finish True (s\<lparr>ip := target\<rparr>)) else None)
         else Some (finish True s))
      else Some (finish False s))"

text \<open>\<^verbatim>\<open>while (cycles < limit) { ...; cycles++ }\<close>\<close>

function execLoop :: "int list \<Rightarrow> int \<Rightarrow> int \<Rightarrow> int \<Rightarrow> int \<Rightarrow> vm \<Rightarrow> vm" where
  "execLoop jumps msk neighborThreshold limit cycles s =
     (if cycles < limit then
        (case execStep jumps msk neighborThreshold s of
           None \<Rightarrow> s
         | Some s' \<Rightarrow> execLoop jumps msk neighborThreshold limit (cycles + 1) s')
      else s)"
  by pat_completeness auto
termination
  by (relation "measure (\<lambda>(jumps, msk, thr, limit, cycles, s). nat (limit - cycles))") auto

declare execLoop.simps [simp del]

text \<open>
  \<^verbatim>\<open>execute(tape)\<close> for an engine with the given \<^verbatim>\<open>tapeSize\<close> and \<^verbatim>\<open>instructionLimit\<close>.
  The tape is changed in place: the final state carries it together with the counters.
\<close>

definition execute :: "int \<Rightarrow> int \<Rightarrow> byte list \<Rightarrow> vm" where
  "execute tapeSize limit t =
     (let len = tapeSize * 2;
          msk = len - 1;
          neighborThreshold = tapeSize;
          jumps = buildJumps t len msk
      in execLoop jumps msk neighborThreshold limit 0 (initVm t))"

subsection \<open>\<^verbatim>\<open>execute\<close> of \<^verbatim>\<open>src/services/bffSimulation.ts\<close>: brackets scanned when taken\<close>





section \<open>The pseudorandom generator\<close>

text \<open>
  \<^verbatim>\<open>PRNG.next\<close>.  The field \<^verbatim>\<open>state\<close> is a JavaScript number and the addition
  \<^verbatim>\<open>this.state += 0x6d2b79f5\<close> (1831565813) is not truncated, so the state is an \<^typ>\<open>int\<close>
  that grows (the addition is exact below \<open>2 ^ 53\<close>).  The bitwise operators and
  \<^verbatim>\<open>Math.imul\<close> work on its low 32 bits.  The result of \<^verbatim>\<open>next\<close> is the returned 32-bit
  value \<open>u\<close>, standing for the double \<open>u / 2 ^ 32\<close>, with the new state.
\<close>

definition imul :: "32 word \<Rightarrow> 32 word \<Rightarrow> 32 word" where
  "imul a b = a * b"

definition prngNext :: "int \<Rightarrow> 32 word \<times> int" where
  "prngNext state =
     (let state' = state + 1831565813;
          t0 = (word_of_int state' :: 32 word);
          t1 = imul (t0 XOR drop_bit 15 t0) (t0 OR 1);
          t2 = t1 XOR (t1 + imul (t1 XOR drop_bit 7 t1) (t1 OR 61))
      in (t2 XOR drop_bit 14 t2, state'))"

text \<open>The double that \<^verbatim>\<open>next\<close> returns.\<close>

definition unitReal :: "32 word \<Rightarrow> real" where
  "unitReal u = real_of_int (uint u) / 2 ^ 32"

text \<open>
  \<^verbatim>\<open>(rng.next() * n) | 0\<close> and \<^verbatim>\<open>Math.floor(rng.next() * n)\<close> for \<open>n \<ge> 0\<close>: the integer part
  of \<open>u * n / 2 ^ 32\<close>; \<^verbatim>\<open>| 0\<close> truncates towards zero.  (The double product is exact
  when \<open>n < 2 ^ 21\<close> or \<open>n\<close> is a power of two.)
\<close>

definition pick :: "32 word \<Rightarrow> int \<Rightarrow> int" where
  "pick u n = (let p = uint u * n in if p \<ge> 0 then p div 2 ^ 32 else - ((- p) div 2 ^ 32))"

text \<open>
  JavaScript's \<^verbatim>\<open>%\<close> on integers: the remainder has the sign of the dividend.
  (\<^verbatim>\<open>a % 0\<close> is \<^verbatim>\<open>NaN\<close> in JavaScript, which the model does not represent: nothing below
  rests on the value of \<open>jsRem a 0\<close>.)
\<close>

definition jsRem :: "int \<Rightarrow> int \<Rightarrow> int" where
  "jsRem a b = sgn a * (\<bar>a\<bar> mod \<bar>b\<bar>)"

text \<open>
  \<^verbatim>\<open>slice(start, fin)\<close> and \<^verbatim>\<open>subarray(start, fin)\<close> of a typed array: a negative index
  counts from the end, and both are clamped to the array.
\<close>

definition relIndex :: "int \<Rightarrow> int \<Rightarrow> int" where
  "relIndex len i = (if i < 0 then max (len + i) 0 else min i len)"

definition slice :: "'a list \<Rightarrow> int \<Rightarrow> int \<Rightarrow> 'a list" where
  "slice a start fin =
     (let len = int (length a);
          k = relIndex len start;
          final = relIndex len fin
      in take (nat (final - k)) (drop (nat k) a))"

section \<open>Configuration, statistics and the engine state\<close>

datatype topology = Spatial | Global

datatype seedingMode = SeedRandom | SeedBalanced

record config =
  gridWidth :: int
  gridHeight :: int
  tapeSize :: int
  mutationRate :: real
  instructionLimit :: int
  topology :: topology
  seedingMode :: seedingMode
  stepsPerFrame :: int
  seed :: int

text \<open>
  \<^verbatim>\<open>SpeciesData.code\<close> is the string \<^verbatim>\<open>genome.toString()\<close>, the decimal byte values joined by
  commas.  That string determines the bytes and is determined by them, so the model keeps the
  bytes themselves, both as the key of the species map and as the \<open>code\<close> of a species.
\<close>

record speciesData =
  rank :: int
  code :: "byte list"
  count :: int
  dominance :: real
  speciesEntropy :: real

record censusData =
  speciesCount :: int
  topSpecies :: "speciesData list"

record simulationStats =
  epoch :: int
  avgComplexity :: real
  replicationRate :: real
  effectiveReplication :: real
  entropy :: real
  zeroDensity :: real
  census :: censusData
  lastCensusEpoch :: int

text \<open>
  The fields of \<^verbatim>\<open>BFFSimulation\<close>.  \<open>rng\<close> is the state of the \<^verbatim>\<open>PRNG\<close> object.  The
  interaction buffer and the jump table are left out: \<^verbatim>\<open>interact\<close> and \<^verbatim>\<open>execute\<close> overwrite
  every entry of them before reading any.
\<close>

record engine =
  config :: config
  width :: int
  height :: int
  data :: "byte list"
  rng :: int
  stats :: simulationStats
  history :: "simulationStats list"
  lastHistoryStats :: "simulationStats option"
  epochInteractions :: int
  epochTotalComplexity :: int
  epochTotalCopies :: int
  epochTotalEffectiveCopies :: int
  epochSize :: int

definition CENSUS_INTERVAL :: int where
  "CENSUS_INTERVAL = 50"

section \<open>Grid metrics and census\<close>

text \<open>
  \<^verbatim>\<open>let step = Math.floor(1 / SAMPLE_RATE); if ((step & 1) === 0) step++\<close> with
  \<^verbatim>\<open>SAMPLE_RATE = 0.1\<close>: in doubles \<^verbatim>\<open>1 / 0.1\<close> is exactly 10.
\<close>

definition sampleStep :: nat where
  "sampleStep = (let step = (10 :: nat) in if step AND 1 = 0 then step + 1 else step)"

text \<open>\<^verbatim>\<open>counts[b]++\<close> on an \<^verbatim>\<open>Int32Array(256)\<close>.\<close>

definition tally :: "byte \<Rightarrow> int list \<Rightarrow> int list" where
  "tally b counts = counts[unat b := counts ! unat b + 1]"

text \<open>
  The loop \<^verbatim>\<open>for (let i = 0; i < 256; i++) if (counts[i] > 0) { p = counts[i] / n; entropy -= p * Math.log2(p) }\<close>
\<close>

definition entropyOf :: "int list \<Rightarrow> real \<Rightarrow> real" where
  "entropyOf counts n =
     fold (\<lambda>i acc.
             if counts ! i > 0
             then (let p = real_of_int (counts ! i) / n in acc - p * log 2 p)
             else acc)
          [0..<256] 0"

definition calculateGenomeEntropy :: "byte list \<Rightarrow> real" where
  "calculateGenomeEntropy genome =
     entropyOf (fold tally genome (replicate 256 0)) (real (length genome))"

text \<open>
  \<^verbatim>\<open>for (let i = 0; i < len; i += step) { counts[this.data[i]]++; samples++ }\<close>
\<close>

function gridLoop :: "byte list \<Rightarrow> nat \<Rightarrow> int list \<Rightarrow> int \<Rightarrow> int list \<times> int" where
  "gridLoop d i counts samples =
     (if i < length d
      then gridLoop d (i + sampleStep) (tally (d ! i) counts) (samples + 1)
      else (counts, samples))"
  by pat_completeness auto
termination
  by (relation "measure (\<lambda>(d, i, counts, samples). length d - i)") (auto simp: sampleStep_def)

declare gridLoop.simps [simp del]

text \<open>The result \<^verbatim>\<open>{ entropy, zeroDensity }\<close> is the pair of the two.\<close>

definition calculateGridMetrics :: "engine \<Rightarrow> real \<times> real" where
  "calculateGridMetrics e =
     (case gridLoop (data e) 0 (replicate 256 0) 0 of
        (counts, samples) \<Rightarrow>
          (entropyOf counts (real_of_int samples),
           real_of_int (counts ! 0) / real_of_int samples))"

text \<open>
  \<^verbatim>\<open>speciesMap.set(key, (speciesMap.get(key) || 0) + 1)\<close> on a \<^verbatim>\<open>Map\<close>, which keeps its
  keys in the order of their first insertion.
\<close>

fun bump :: "'k \<Rightarrow> ('k \<times> int) list \<Rightarrow> ('k \<times> int) list" where
  "bump k [] = [(k, 1)]"
| "bump k ((k', c) # m) = (if k = k' then (k', c + 1) # m else (k', c) # bump k m)"

text \<open>
  \<^verbatim>\<open>for (let i = 0; i < totalCells; i += step)\<close> over cells: the species map and
  \<^verbatim>\<open>actualSampleCount\<close>.
\<close>

function censusLoop ::
  "byte list \<Rightarrow> int \<Rightarrow> int \<Rightarrow> nat \<Rightarrow> (byte list \<times> int) list \<Rightarrow> int \<Rightarrow> (byte list \<times> int) list \<times> int" where
  "censusLoop d tSize totalCells i speciesMap actualSampleCount =
     (if int i < totalCells then
        (let start = int i * tSize;
             genome = slice d start (start + tSize)
         in censusLoop d tSize totalCells (i + sampleStep)
              (bump genome speciesMap) (actualSampleCount + 1))
      else (speciesMap, actualSampleCount))"
  by pat_completeness auto
termination
  by (relation "measure (\<lambda>(d, tSize, totalCells, i, m, n). nat totalCells - i)")
     (auto simp: sampleStep_def)

declare censusLoop.simps [simp del]

text \<open>
  One entry of \<^verbatim>\<open>topSpecies\<close>; \<open>index\<close> is the position in the sorted list.  The source
  computes the entropy from the bytes parsed back out of the key string, which are the bytes of
  the genome.
\<close>

definition mkSpecies :: "int \<Rightarrow> int \<Rightarrow> nat \<times> (byte list \<times> int) \<Rightarrow> speciesData" where
  "mkSpecies totalCells actualSampleCount entry =
     (case entry of (index, (key, n)) \<Rightarrow>
        (let dom = real_of_int n / real_of_int actualSampleCount in
           \<lparr>rank = int index + 1,
            code = key,
            count = \<lfloor>dom * real_of_int totalCells\<rfloor>,
            dominance = dom,
            speciesEntropy = calculateGenomeEntropy key\<rparr>))"

text \<open>
  \<^verbatim>\<open>performCensus\<close>.  \<^verbatim>\<open>Array.prototype.sort\<close> is stable, as insertion sort by the
  negated count is; \<^verbatim>\<open>slice(0, 5)\<close> takes the first five.
\<close>

definition performCensus :: "engine \<Rightarrow> censusData" where
  "performCensus e =
     (let totalCells = width e * height e;
          tSize = tapeSize (config e)
      in case censusLoop (data e) tSize totalCells 0 [] 0 of
           (speciesMap, actualSampleCount) \<Rightarrow>
             (let sortedSpecies = take 5 (sort_key (\<lambda>entry. - snd entry) speciesMap)
              in \<lparr>speciesCount = int (length speciesMap),
                  topSpecies = map (mkSpecies totalCells actualSampleCount)
                                   (enumerate 0 sortedSpecies)\<rparr>))"

section \<open>Life cycle: reset, construction, reconfiguration\<close>

text \<open>
  The two seeding loops of \<^verbatim>\<open>reset\<close>, each over \<^verbatim>\<open>i < this.data.length\<close>, with the
  generator state threaded through.  \<^verbatim>\<open>choices\<close> is \<^verbatim>\<open>[...VALID_OPS, 0]\<close>.
\<close>

definition choices :: "byte list" where
  "choices = VALID_OPS @ [0]"

primrec fillBalanced :: "nat \<Rightarrow> int \<Rightarrow> byte list \<times> int" where
  "fillBalanced 0 r = ([], r)"
| "fillBalanced (Suc n) r =
     (case prngNext r of (u, r') \<Rightarrow>
        (case fillBalanced n r' of (bs, r'') \<Rightarrow>
           (choices ! nat (pick u (int (length choices))) # bs, r'')))"

primrec fillRandom :: "nat \<Rightarrow> int \<Rightarrow> byte list \<times> int" where
  "fillRandom 0 r = ([], r)"
| "fillRandom (Suc n) r =
     (case prngNext r of (u, r') \<Rightarrow>
        (case fillRandom n r' of (bs, r'') \<Rightarrow>
           (word_of_int (pick u 256) # bs, r'')))"

definition reset :: "engine \<Rightarrow> engine" where
  "reset e =
     (case (if seedingMode (config e) = SeedBalanced
            then fillBalanced (length (data e)) (seed (config e))
            else fillRandom (length (data e)) (seed (config e))) of
        (bytes, r) \<Rightarrow>
          (let e1 = e\<lparr>rng := r, data := bytes\<rparr>;
               metrics = calculateGridMetrics e1;
               initialCensus = performCensus e1;
               st = \<lparr>epoch = 0, avgComplexity = 0, replicationRate = 0,
                     effectiveReplication = 0,
                     entropy = fst metrics, zeroDensity = snd metrics,
                     census = initialCensus, lastCensusEpoch = 0\<rparr>
           in e1\<lparr>stats := st,
                 history := [st],
                 lastHistoryStats := Some st,
                 epochInteractions := 0,
                 epochTotalComplexity := 0,
                 epochTotalCopies := 0,
                 epochTotalEffectiveCopies := 0\<rparr>))"

text \<open>
  The only way construction fails: \<^verbatim>\<open>new Uint8Array(n)\<close> and \<^verbatim>\<open>new Int16Array(n)\<close> throw a
  \<^verbatim>\<open>RangeError\<close> for a negative length.  Neither the constructor nor \<^verbatim>\<open>updateConfig\<close>
  contains a check of its own.
\<close>

datatype error = RangeError

text \<open>The field initialisers of the class: the value of \<^verbatim>\<open>stats\<close> before \<^verbatim>\<open>reset\<close> runs.\<close>

definition initialStats :: simulationStats where
  "initialStats =
     \<lparr>epoch = 0, avgComplexity = 0, replicationRate = 0, effectiveReplication = 0,
      entropy = 8, zeroDensity = 0,
      census = \<lparr>speciesCount = 0, topSpecies = []\<rparr>, lastCensusEpoch = 0\<rparr>"

text \<open>
  The fields after the assignments of the constructor, before it calls \<^verbatim>\<open>reset\<close>.
\<close>

definition allocate :: "config \<Rightarrow> engine" where
  "allocate c =
     \<lparr>config = c,
      width = gridWidth c,
      height = gridHeight c,
      data = replicate (nat (gridWidth c * gridHeight c * tapeSize c)) 0,
      rng = seed c,
      stats = initialStats,
      history = [],
      lastHistoryStats = None,
      epochInteractions = 0,
      epochTotalComplexity = 0,
      epochTotalCopies = 0,
      epochTotalEffectiveCopies = 0,
      epochSize = gridWidth c * gridHeight c\<rparr>"

definition new :: "config \<Rightarrow> error + engine" where
  "new c =
     (if gridWidth c * gridHeight c * tapeSize c < 0 \<or> tapeSize c * 2 < 0 then Inl RangeError
      else Inr (reset (allocate c)))"


definition getCellAt :: "engine \<Rightarrow> int \<Rightarrow> int \<Rightarrow> byte list" where
  "getCellAt e x y =
     (let sx = jsRem (x + width e) (width e);
          sy = jsRem (y + height e) (height e);
          idx = (sy * width e + sx) * tapeSize (config e)
      in slice (data e) idx (idx + tapeSize (config e)))"

section \<open>Mutation and the end of an epoch\<close>

text \<open>
  The loop of \<^verbatim>\<open>mutate\<close>: \<^verbatim>\<open>numMutations\<close> times, a byte index and a byte value are drawn.
\<close>

primrec mutateLoop :: "nat \<Rightarrow> int \<Rightarrow> byte list \<Rightarrow> int \<Rightarrow> byte list \<times> int" where
  "mutateLoop 0 totalBytes d r = (d, r)"
| "mutateLoop (Suc n) totalBytes d r =
     (case prngNext r of (u1, r1) \<Rightarrow>
        (case prngNext r1 of (u2, r2) \<Rightarrow>
           mutateLoop n totalBytes (wr d (pick u1 totalBytes) (word_of_int (pick u2 256))) r2))"

definition mutate :: "engine \<Rightarrow> engine" where
  "mutate e =
     (if mutationRate (config e) \<le> 0 then e
      else
        (let totalBytes = int (length (data e));
             expectedMutations = real_of_int totalBytes * mutationRate (config e);
             numMutations = \<lfloor>expectedMutations\<rfloor>
         in case prngNext (rng e) of (u, r1) \<Rightarrow>
              (let numMutations' =
                     (if unitReal u < expectedMutations - real_of_int numMutations
                      then numMutations + 1 else numMutations)
               in case mutateLoop (nat numMutations') totalBytes (data e) r1 of
                    (d, r2) \<Rightarrow> e\<lparr>data := d, rng := r2\<rparr>)))"

text \<open>
  \<^verbatim>\<open>completeEpoch\<close>.  The thresholds \<^verbatim>\<open>0.1\<close> and \<^verbatim>\<open>0.05\<close> are the reals \<open>1/10\<close> and
  \<open>1/20\<close>.  A snapshot \<^verbatim>\<open>{ ...this.stats }\<close> is the value of \<open>stats\<close> at that moment.
\<close>

definition completeEpoch :: "engine \<Rightarrow> engine" where
  "completeEpoch e0 =
     (let e = mutate e0;
          ep = epoch (stats e) + 1;
          metrics = calculateGridMetrics e;
          st1 = (stats e)
                  \<lparr>epoch := ep,
                   avgComplexity := real_of_int (epochTotalComplexity e) / real_of_int (epochSize e),
                   replicationRate := real_of_int (epochTotalCopies e) / real_of_int (epochSize e),
                   effectiveReplication :=
                     real_of_int (epochTotalEffectiveCopies e) / real_of_int (epochSize e),
                   entropy := fst metrics,
                   zeroDensity := snd metrics\<rparr>;
          isCensusEpoch = (jsRem ep CENSUS_INTERVAL = 0);
          st2 = (if isCensusEpoch
                 then st1\<lparr>census := performCensus e, lastCensusEpoch := ep\<rparr>
                 else st1);
          shouldLog =
            (if isCensusEpoch then True
             else (case lastHistoryStats e of
                     Some l \<Rightarrow>
                       (let dEntropy = \<bar>entropy st2 - entropy l\<bar>;
                            dZero = \<bar>zeroDensity st2 - zeroDensity l\<bar>
                        in dEntropy > 1 / 10 \<or> dZero > 1 / 20)
                   | None \<Rightarrow> True));
          e1 = e\<lparr>stats := st2\<rparr>;
          e2 = (if shouldLog
                then e1\<lparr>history := history e1 @ [st2], lastHistoryStats := Some st2\<rparr>
                else e1)
      in e2\<lparr>epochInteractions := 0,
            epochTotalComplexity := 0,
            epochTotalCopies := 0,
            epochTotalEffectiveCopies := 0\<rparr>)"

section \<open>Interaction\<close>

text \<open>
  Steps 1 and 2 of \<^verbatim>\<open>interact\<close>: the choice of the two agents.  \<open>Abort\<close> is the early
  \<^verbatim>\<open>return\<close> of the spatial topology (\<open>dx = 0\<close> and \<open>dy = 0\<close>); both results carry the state of
  the generator after the draws.
\<close>

datatype agents = Abort int | Chosen int int int int int

text \<open>
  \<^verbatim>\<open>do { nx = ...; ny = ... } while (nx === x && ny === y)\<close>.  The loop has no bound; where it
  does not end the result is \<open>None\<close>.
\<close>

partial_function (option) resample :: "int \<Rightarrow> int \<Rightarrow> int \<Rightarrow> int \<Rightarrow> int \<Rightarrow> (int \<times> int \<times> int) option" where
  "resample w h x y r =
     (case prngNext r of (u1, r1) \<Rightarrow>
        (case prngNext r1 of (u2, r2) \<Rightarrow>
           (let nx = pick u1 w; ny = pick u2 h
            in if nx = x \<and> ny = y then resample w h x y r2 else Some (nx, ny, r2))))"

declare resample.simps [code]

definition chooseAgents :: "engine \<Rightarrow> agents option" where
  "chooseAgents e =
     (case prngNext (rng e) of (u1, r1) \<Rightarrow>
        (case prngNext r1 of (u2, r2) \<Rightarrow>
           (let x = pick u1 (width e);
                y = pick u2 (height e)
            in if topology (config e) = Global then
                 (case resample (width e) (height e) x y r2 of
                    None \<Rightarrow> None
                  | Some (nx, ny, r') \<Rightarrow> Some (Chosen x y nx ny r'))
               else
                 (case prngNext r2 of (u3, r3) \<Rightarrow>
                    (case prngNext r3 of (u4, r4) \<Rightarrow>
                       (let dx = pick u3 5 - 2;
                            dy = pick u4 5 - 2
                        in if dx = 0 \<and> dy = 0 then Some (Abort r4)
                           else Some (Chosen x y
                                  (jsRem (x + dx + width e) (width e))
                                  (jsRem (y + dy + height e) (height e)) r4)))))))"

text \<open>
  Step 3: the interaction buffer after the copy loop.  The buffer has \<open>2 * tapeSize\<close>
  entries and the loop writes each of them.
\<close>

definition loadTape :: "byte list \<Rightarrow> int \<Rightarrow> int \<Rightarrow> int \<Rightarrow> byte list" where
  "loadTape d tSize idxA idxB =
     map (\<lambda>i. toU8 (rd d (idxA + int i))) [0..<nat tSize] @
     map (\<lambda>i. toU8 (rd d (idxB + int i))) [0..<nat tSize]"

text \<open>
  Step 5: \<^verbatim>\<open>for (i < tapeSize) { data[idxA + i] = tape[i]; data[idxB + i] = tape[tapeSize + i] }\<close>
\<close>

definition writeBack :: "byte list \<Rightarrow> int \<Rightarrow> int \<Rightarrow> int \<Rightarrow> byte list \<Rightarrow> byte list" where
  "writeBack d tSize idxA idxB t =
     fold (\<lambda>i d'. wr (wr d' (idxA + int i) (toU8 (rd t (int i))))
                      (idxB + int i) (toU8 (rd t (tSize + int i))))
          [0..<nat tSize] d"

text \<open>
  Steps 3 to 5 of \<^verbatim>\<open>interact\<close> for chosen agents; \<open>r\<close> is the generator state after the
  choice.  \<^verbatim>\<open>completeEpoch\<close> is called between the run of the interpreter and the write-back.
\<close>

definition runInteraction :: "engine \<Rightarrow> int \<Rightarrow> int \<Rightarrow> int \<Rightarrow> engine" where
  "runInteraction e r idxA idxB =
     (let tSize = tapeSize (config e);
          s = execute tSize (instructionLimit (config e)) (loadTape (data e) tSize idxA idxB);
          e1 = e\<lparr>rng := r,
                 epochTotalComplexity := epochTotalComplexity e + complexity s,
                 epochTotalCopies := epochTotalCopies e + copies s,
                 epochTotalEffectiveCopies := epochTotalEffectiveCopies e + neighborWrites s,
                 epochInteractions := epochInteractions e + 1\<rparr>;
          e2 = (if epochInteractions e1 \<ge> epochSize e1 then completeEpoch e1 else e1)
      in e2\<lparr>data := writeBack (data e2) tSize idxA idxB (tape s)\<rparr>)"

definition interact :: "engine \<Rightarrow> engine option" where
  "interact e =
     (case chooseAgents e of
        None \<Rightarrow> None
      | Some (Abort r) \<Rightarrow> Some (e\<lparr>rng := r\<rparr>)
      | Some (Chosen x y nx ny r) \<Rightarrow>
          Some (runInteraction e r
                  ((y * width e + x) * tapeSize (config e))
                  ((ny * width e + nx) * tapeSize (config e))))"

text \<open>\<^verbatim>\<open>step(interactions)\<close>: \<^verbatim>\<open>interact\<close> is called \<open>interactions\<close> times.\<close>

fun step :: "nat \<Rightarrow> engine \<Rightarrow> engine option" where
  "step 0 e = Some e"
| "step (Suc n) e = (case interact e of None \<Rightarrow> None | Some e' \<Rightarrow> step n e')"

section \<open>Definitions for the properties: the spec's words, invariants, test inputs\<close>

text \<open>
  \<^verbatim>\<open>execute\<close> is a total function: its main loop runs at most \<open>limit\<close> times and each bracket
  scan at most \<open>len\<close> times (the termination proofs above).  On the tape of scenario S1 the three
  \<open>+\<close> increment \<open>tape[0]\<close>, which is the first \<open>+\<close> itself, to 46 (\<open>.\<close>); after thirteen zero bytes
  the instruction pointer wraps, and \<open>.\<close>, \<open>+\<close>, \<open>+\<close> run before the limit of 32 cycles is reached.
\<close>

definition s1Tape :: "byte list" where
  "s1Tape = [43, 43, 43, 0, 0, 0, 0, 0, 0, 0, 0, 0, 0, 0, 0, 0]"







text \<open>A grid of four columns and two rows of two-byte cells.\<close>

definition smallConfig :: config where
  "smallConfig = \<lparr>gridWidth = 4, gridHeight = 2, tapeSize = 2, mutationRate = 0,
                   instructionLimit = 8192, topology = Spatial, seedingMode = SeedRandom,
                   stepsPerFrame = 1, seed = 42\<rparr>"

text \<open>A one-cell grid with the global topology.\<close>

definition tinyGlobal :: config where
  "tinyGlobal = \<lparr>gridWidth = 1, gridHeight = 1, tapeSize = 64, mutationRate = 0,
                  instructionLimit = 8192, topology = Global, seedingMode = SeedRandom,
                  stepsPerFrame = 1, seed = 42\<rparr>"


text \<open>
  The spec's words for the grid metrics: the sampled bytes are those at the indices
  \<open>0, 11, 22, \<dots>\<close> of the buffer, and the entropy is the base-2 Shannon entropy of their
  frequencies, summed over the byte values that occur.
\<close>

definition sampledBytes :: "byte list \<Rightarrow> byte list" where
  "sampledBytes d = map (\<lambda>i. d ! i) (filter (\<lambda>i. 11 dvd i) [0..<length d])"

definition shannonEntropy :: "byte list \<Rightarrow> real" where
  "shannonEntropy xs =
     - (\<Sum>b \<in> {b. count_list xs b > 0}.
          (real (count_list xs b) / real (length xs)) *
          log 2 (real (count_list xs b) / real (length xs)))"




text \<open>
  One round of the write-back loop, and what the loop leaves in the two cells: the second
  write of each round goes to cell B, so B ends as the second half of the tape, and A as the
  first half when it is another cell.
\<close>

definition wbStep :: "int \<Rightarrow> int \<Rightarrow> int \<Rightarrow> byte list \<Rightarrow> nat \<Rightarrow> byte list \<Rightarrow> byte list" where
  "wbStep tSize idxA idxB t i d' =
     wr (wr d' (idxA + int i) (toU8 (rd t (int i)))) (idxB + int i) (toU8 (rd t (tSize + int i)))"







text \<open>With seed 47 the first pick on the one-cell grid is aborted.\<close>

definition abortConfig :: config where
  "abortConfig = \<lparr>gridWidth = 1, gridHeight = 1, tapeSize = 1, mutationRate = 0,
                   instructionLimit = 16, topology = Spatial, seedingMode = SeedBalanced,
                   stepsPerFrame = 1, seed = 47\<rparr>"

section \<open>The smoke test S1 of the interpreter\<close>

lemma s1_run:
  "execute 8 32 s1Tape =
     \<lparr>tape = [48, 43, 43, 0, 0, 0, 0, 0, 0, 0, 0, 0, 0, 0, 0, 0],
      head0 = 0, head1 = 0, ip = 32, complexity = 6, copies = 1, neighborWrites = 0\<rparr>"
  by code_simp

text \<open>
  C2, as stated: running \<^verbatim>\<open>execute\<close> with \<open>tapeSize = 8\<close> and limit 32 on the tape
  \<open>[43, 43, 43, 0, ...]\<close> ends with \<open>tape[0] = 3\<close>, complexity 3, copies 0 and neighborWrites 0.
  This is false of the code.
\<close>

theorem s1_as_stated_counterexample:
  "\<not> (tape (execute 8 32 s1Tape) ! 0 = 3 \<and> complexity (execute 8 32 s1Tape) = 3 \<and>
      copies (execute 8 32 s1Tape) = 0 \<and> neighborWrites (execute 8 32 s1Tape) = 0)"
  by (simp add: s1_run)

text \<open>
  C2, as amended: the same run ends with \<open>tape[0] = 48\<close>, complexity 6, copies 1 and
  neighborWrites 0.
\<close>

theorem s1_result:
  "tape (execute 8 32 s1Tape) ! 0 = 48 \<and> complexity (execute 8 32 s1Tape) = 6 \<and>
   copies (execute 8 32 s1Tape) = 1 \<and> neighborWrites (execute 8 32 s1Tape) = 0"
  by (simp add: s1_run)

section \<open>Bracket scan at jump time against the jump table\<close>



















section \<open>Frame facts of reset and construction\<close>

lemma length_fillBalanced: "length (fst (fillBalanced n r)) = n"
  by (induction n arbitrary: r) (simp_all add: split_def)

lemma length_fillRandom: "length (fst (fillRandom n r)) = n"
  by (induction n arbitrary: r) (simp_all add: split_def)

lemma reset_frame:
  "config (reset e) = config e" "width (reset e) = width e" "height (reset e) = height e"
  "epochSize (reset e) = epochSize e" "length (data (reset e)) = length (data e)"
  by (simp_all add: reset_def split_def Let_def length_fillBalanced length_fillRandom)

lemma new_Inr:
  "new c = Inr e \<Longrightarrow>
     config e = c \<and> width e = gridWidth c \<and> height e = gridHeight c \<and>
     epochSize e = gridWidth c * gridHeight c \<and>
     int (length (data e)) = gridWidth c * gridHeight c * tapeSize c"
proof -
  assume a: "new c = Inr e"
  then have ok: "\<not> (gridWidth c * gridHeight c * tapeSize c < 0 \<or> tapeSize c * 2 < 0)"
    by (auto simp: new_def split: if_splits)
  then have e: "e = reset (allocate c)"
    using a by (simp add: new_def)
  show ?thesis
    unfolding e reset_frame using ok by (simp add: allocate_def)
qed

section \<open>Construction and reconfiguration check nothing\<close>


lemma new_isl: "isl (new c) \<longleftrightarrow> gridWidth c * gridHeight c * tapeSize c < 0 \<or> tapeSize c * 2 < 0"
  by (simp add: new_def)





section \<open>Cell access\<close>

text \<open>
  C8 fails on the code: \<^verbatim>\<open>getCellAt\<close> adds the width once before taking the remainder, so
  for \<open>x < - W\<close> the column stays negative.  On the 4 by 2 grid of two-byte cells,
  \<^verbatim>\<open>getCellAt(-5, 0)\<close> is the empty array (the claim: the two bytes of cell \<open>(3, 0)\<close>), and
  \<^verbatim>\<open>getCellAt(-5, -3)\<close> is bytes 6 and 7 of the grid, cell \<open>(3, 0)\<close> (the claim: cell \<open>(3, 1)\<close>,
  bytes 14 and 15).
\<close>

theorem getCellAt_far_negative:
  "(case new smallConfig of
      Inl err \<Rightarrow> False
    | Inr e \<Rightarrow> getCellAt e (- 5) 0 = [] \<and>
               getCellAt e (- 5) (- 3) = take 2 (drop 6 (data e)))"
proof -
  have "\<not> isl (new smallConfig)" by (simp add: new_isl smallConfig_def)
  then obtain e where e: "new smallConfig = Inr e" by (cases "new smallConfig") simp_all
  from new_Inr [OF e]
  have f: "config e = smallConfig" "width e = 4" "height e = 2" "length (data e) = 16"
    by (simp_all add: smallConfig_def)
  show ?thesis
    unfolding e sum.case
    by (simp add: getCellAt_def f jsRem_def slice_def relIndex_def Let_def smallConfig_def)
qed

lemma slice_in_range:
  "0 \<le> i \<Longrightarrow> 0 \<le> n \<Longrightarrow> i + n \<le> int (length a) \<Longrightarrow>
   slice a i (i + n) = take (nat n) (drop (nat i) a)"
  by (simp add: slice_def relIndex_def Let_def)

lemma jsRem_nonneg: "0 \<le> a \<Longrightarrow> 0 < b \<Longrightarrow> jsRem a b = a mod b"
  by (cases "a = 0") (simp_all add: jsRem_def)

text \<open>
  X1: on a grid of positive dimensions and length \<open>W * H * T\<close>, for \<open>x \<ge> - W\<close> and \<open>y \<ge> - H\<close>
  \<^verbatim>\<open>getCellAt\<close> returns the \<open>T\<close> bytes of the cell at the coordinates taken modulo the grid.
\<close>

theorem getCellAt_one_wrap:
  assumes w: "0 < width e" and h: "0 < height e" and t: "0 \<le> tapeSize (config e)"
    and len: "int (length (data e)) = width e * height e * tapeSize (config e)"
    and x: "- width e \<le> x" and y: "- height e \<le> y"
  shows "getCellAt e x y =
           take (nat (tapeSize (config e)))
             (drop (nat (((y mod height e) * width e + x mod width e) * tapeSize (config e)))
                (data e))"
proof -
  have sx: "jsRem (x + width e) (width e) = x mod width e"
    using w x by (simp add: jsRem_nonneg)
  have sy: "jsRem (y + height e) (height e) = y mod height e"
    using h y by (simp add: jsRem_nonneg)
  let ?c = "(y mod height e) * width e + x mod width e"
  have c0: "0 \<le> ?c" using w h by simp
  have "x mod width e < width e" "y mod height e < height e" using w h by simp_all
  then have "y mod height e \<le> height e - 1" "x mod width e \<le> width e - 1" by simp_all
  then have "?c \<le> (height e - 1) * width e + (width e - 1)"
    using w by (simp add: add_mono mult_right_mono)
  then have c1: "?c + 1 \<le> width e * height e" by (simp add: algebra_simps)
  have "(?c + 1) * tapeSize (config e) \<le> width e * height e * tapeSize (config e)"
    using c1 t by (rule mult_right_mono)
  then have hi: "?c * tapeSize (config e) + tapeSize (config e) \<le> int (length (data e))"
    by (simp add: len algebra_simps)
  have lo: "0 \<le> ?c * tapeSize (config e)" using c0 t by simp
  show ?thesis
    unfolding getCellAt_def Let_def sx sy
    by (rule slice_in_range [OF lo t hi])
qed

section \<open>The resampling loop of the global topology\<close>

lemma pick_one: "pick u 1 = 0"
proof -
  have "uint u < 2 ^ 32" using uint_bounded [of u] by simp
  then show ?thesis by (simp add: pick_def Let_def)
qed

text \<open>
  With one column and one row every draw of \<open>nx\<close> and \<open>ny\<close> is 0, the coordinates of agent A,
  whatever the state of the generator: the loop of the global topology does not end.
\<close>

lemma resample_adm:
  "option.admissible
     (\<lambda>g :: (((int \<times> int) \<times> int) \<times> int) \<times> int \<Rightarrow> (int \<times> int \<times> int) option.
        \<forall>r. g ((((1, 1), 0), 0), r) = None)"
proof -
  have "(\<lambda>g :: (((int \<times> int) \<times> int) \<times> int) \<times> int \<Rightarrow> (int \<times> int \<times> int) option.
           \<forall>r. g ((((1, 1), 0), 0), r) = None) =
        (\<lambda>g. \<forall>x y. g x = Some y \<longrightarrow> fst x \<noteq> (((1, 1), 0), 0))"
    by (rule ext) (metis fst_conv not_None_eq prod.collapse)
  then show ?thesis
    by (simp only: option_admissible)
qed

lemma resample_one_None: "resample 1 1 0 0 r = None"
proof -
  have "\<forall>r. resample 1 1 0 0 r = None"
    apply (rule resample.fixp_induct [where P = "\<lambda>f. \<forall>r. f 1 1 0 0 r = None"])
      apply (simp only: curry_conv)
      apply (rule resample_adm)
     apply simp
    apply (simp add: split_def Let_def pick_one)
    done
  then show ?thesis by blast
qed

lemma interact_global_one:
  "topology (config e) = Global \<Longrightarrow> width e = 1 \<Longrightarrow> height e = 1 \<Longrightarrow> interact e = None"
  by (simp add: interact_def chooseAgents_def split_def Let_def pick_one resample_one_None)

lemma chooseAgents_spatial:
  "topology (config e) = Spatial \<Longrightarrow> chooseAgents e \<noteq> None"
  by (simp add: chooseAgents_def split_def Let_def)

text \<open>
  X2: the spatial topology has no loop: there \<^verbatim>\<open>interact\<close> always returns.
\<close>

theorem interact_spatial_total:
  "topology (config e) = Spatial \<Longrightarrow> interact e \<noteq> None"
  using chooseAgents_spatial [of e]
  by (auto simp: interact_def split: option.splits agents.splits)

text \<open>
  C9 fails on the code: on the engine constructed from \<open>tinyGlobal\<close> (\<open>W = H = 1\<close>, global
  topology) the resampling loop of \<^verbatim>\<open>interact\<close> never ends, so neither \<^verbatim>\<open>interact\<close> nor
  \<^verbatim>\<open>step(1)\<close> returns.
\<close>

theorem interact_diverges:
  "(case new tinyGlobal of Inl err \<Rightarrow> False | Inr e \<Rightarrow> interact e = None \<and> step 1 e = None)"
proof -
  have "\<not> (gridWidth tinyGlobal * gridHeight tinyGlobal * tapeSize tinyGlobal < 0
            \<or> tapeSize tinyGlobal * 2 < 0)"
    by (simp add: tinyGlobal_def)
  then obtain e where e: "new tinyGlobal = Inr e"
    by (simp add: new_def)
  from new_Inr [OF e] have "topology (config e) = Global" "width e = 1" "height e = 1"
    by (simp_all add: tinyGlobal_def)
  then have "interact e = None" by (rule interact_global_one)
  then show ?thesis by (simp add: e)
qed

section \<open>The history policy\<close>

lemma mutate_frame:
  "config (mutate e) = config e" "width (mutate e) = width e" "height (mutate e) = height e"
  "stats (mutate e) = stats e" "history (mutate e) = history e"
  "lastHistoryStats (mutate e) = lastHistoryStats e" "epochSize (mutate e) = epochSize e"
  "epochInteractions (mutate e) = epochInteractions e"
  "epochTotalComplexity (mutate e) = epochTotalComplexity e"
  "epochTotalCopies (mutate e) = epochTotalCopies e"
  "epochTotalEffectiveCopies (mutate e) = epochTotalEffectiveCopies e"
  by (simp_all add: mutate_def split_def Let_def)







text \<open>Every state reached from a constructed engine satisfies the invariant.\<close>

lemma runInteraction_frame:
  "history (runInteraction e r a b) =
     (if epochInteractions e + 1 \<ge> epochSize e
      then history (completeEpoch (e\<lparr>rng := r,
                 epochTotalComplexity := epochTotalComplexity e + complexity (execute (tapeSize (config e)) (instructionLimit (config e)) (loadTape (data e) (tapeSize (config e)) a b)),
                 epochTotalCopies := epochTotalCopies e + copies (execute (tapeSize (config e)) (instructionLimit (config e)) (loadTape (data e) (tapeSize (config e)) a b)),
                 epochTotalEffectiveCopies := epochTotalEffectiveCopies e + neighborWrites (execute (tapeSize (config e)) (instructionLimit (config e)) (loadTape (data e) (tapeSize (config e)) a b)),
                 epochInteractions := epochInteractions e + 1\<rparr>))
      else history e)"
  by (simp add: runInteraction_def Let_def)







section \<open>Grid metrics\<close>

lemma sampleStep_eq: "sampleStep = 11"
  by (simp add: sampleStep_def)

lemma no_multiple_between:
  "11 dvd i \<Longrightarrow> m \<le> i + 11 \<Longrightarrow> filter (\<lambda>j. 11 dvd j) [Suc i..<m] = []"
proof -
  assume d: "11 dvd i" and m: "m \<le> i + 11"
  have "\<not> 11 dvd j" if "Suc i \<le> j" "j < m" for j
  proof
    assume "11 dvd j"
    with d have "11 dvd (j - i)" by (simp add: dvd_diff_nat)
    moreover have "0 < j - i" "j - i < 11" using that m by simp_all
    ultimately show False by (auto dest: dvd_imp_le)
  qed
  then show ?thesis by (auto simp: filter_empty_conv)
qed

lemma filter_from_multiple:
  assumes d: "11 dvd i" and lt: "i < n"
  shows "filter (\<lambda>j. 11 dvd j) [i..<n] = i # filter (\<lambda>j. 11 dvd j) [i + 11..<n]"
proof -
  have a: "[i..<n] = i # [Suc i..<n]" using lt by (simp add: upt_rec)
  show ?thesis
  proof (cases "i + 11 \<le> n")
    case True
    then have "[Suc i..<n] = [Suc i..<i + 11] @ [i + 11..<n]"
      using upt_add_eq_append [of "Suc i" "i + 11" "n - (i + 11)"] by simp
    then show ?thesis
      using d by (simp add: a no_multiple_between)
  next
    case False
    then have "filter (\<lambda>j. 11 dvd j) [Suc i..<n] = []"
      using d by (intro no_multiple_between) simp_all
    then show ?thesis
      using d False by (simp add: a)
  qed
qed

lemma gridLoop_eq:
  "11 dvd i \<Longrightarrow>
   gridLoop d i counts samples =
     (fold tally (map (\<lambda>j. d ! j) (filter (\<lambda>j. 11 dvd j) [i..<length d])) counts,
      samples + int (length (filter (\<lambda>j. 11 dvd j) [i..<length d])))"
proof (induction d i counts samples rule: gridLoop.induct)
  case (1 d i counts samples)
  show ?case
  proof (cases "i < length d")
    case True
    have d': "11 dvd (i + sampleStep)" using "1.prems" by (simp add: sampleStep_eq)
    show ?thesis
      using "1.IH" [OF True d'] True
      by (subst gridLoop.simps)
         (simp add: filter_from_multiple [OF "1.prems" True] sampleStep_eq)
  next
    case False
    then show ?thesis
      by (subst gridLoop.simps) simp
  qed
qed

lemma length_fold_tally: "length (fold tally xs c) = length c"
  by (induction xs arbitrary: c) (simp_all add: tally_def)

lemma unat_byte_lt: "unat (b :: byte) < 256"
  using unsigned_less [of b, where 'a = nat] by simp

lemma unat_of_nat_byte: "k < 256 \<Longrightarrow> unat (of_nat k :: byte) = k"
  by (simp add: unat_of_nat)

lemma unat_eq_iff_byte: "k < 256 \<Longrightarrow> unat (b :: byte) = k \<longleftrightarrow> b = of_nat k"
proof
  assume "unat b = k"
  then have "of_nat (unat b) = (of_nat k :: byte)" by simp
  then show "b = of_nat k" by simp
next
  assume "k < 256" "b = of_nat k"
  then show "unat b = k" by (simp add: unat_of_nat_byte)
qed

lemma fold_tally_nth:
  "length c = 256 \<Longrightarrow> k < 256 \<Longrightarrow>
   fold tally xs c ! k = c ! k + int (count_list xs (of_nat k))"
proof (induction xs arbitrary: c)
  case Nil
  then show ?case by simp
next
  case (Cons b xs)
  have lb: "unat b < 256" by (rule unat_byte_lt)
  have len: "length (tally b c) = 256" using Cons.prems by (simp add: tally_def)
  have hd: "tally b c ! k = c ! k + (if b = of_nat k then 1 else 0)"
  proof (cases "b = of_nat k")
    case True
    then have "unat b = k" using Cons.prems(2) by (simp add: unat_of_nat_byte)
    then show ?thesis using True Cons.prems by (simp add: tally_def)
  next
    case False
    then have "unat b \<noteq> k" using Cons.prems(2) by (simp add: unat_eq_iff_byte)
    then show ?thesis using False by (simp add: tally_def)
  qed
  show ?case
    using Cons.IH [OF len Cons.prems(2)] hd by simp
qed

lemma fold_minus_sum:
  "fold (\<lambda>i acc. if P i then acc - f i else acc) xs (a :: real) =
     a - sum_list (map (\<lambda>i. if P i then f i else 0) xs)"
  by (induction xs arbitrary: a) simp_all

lemma entropyOf_sum:
  "entropyOf counts n =
     - (\<Sum>i \<in> {0..<256}. if counts ! i > 0
          then (real_of_int (counts ! i) / n) * log 2 (real_of_int (counts ! i) / n) else 0)"
proof -
  have "entropyOf counts n =
          0 - sum_list (map (\<lambda>i. if counts ! i > 0
             then (real_of_int (counts ! i) / n) * log 2 (real_of_int (counts ! i) / n) else 0)
             [0..<256])"
    unfolding entropyOf_def Let_def by (rule fold_minus_sum)
  then show ?thesis
    by (simp only: interv_sum_list_conv_sum_set_nat set_upt diff_0)
qed

lemma bij_of_nat_byte: "bij_betw (of_nat :: nat \<Rightarrow> byte) {0..<256} UNIV"
proof (rule bij_betw_byWitness [where f' = unat])
  show "\<forall>a \<in> {0..<256}. unat (of_nat a :: byte) = a"
    by (simp add: unat_of_nat_byte)
  show "\<forall>a' \<in> (UNIV :: byte set). of_nat (unat a') = a'" by simp
  show "(of_nat :: nat \<Rightarrow> byte) ` {0..<256} \<subseteq> UNIV" by simp
  show "unat ` (UNIV :: byte set) \<subseteq> {0..<256}" by (auto simp: unat_byte_lt)
qed

lemma entropy_of_tally:
  assumes c: "\<And>k. k < 256 \<Longrightarrow> counts ! k = int (count_list xs (of_nat k))"
  shows "entropyOf counts (real (length xs)) = shannonEntropy xs"
proof -
  let ?g = "\<lambda>b :: byte. if count_list xs b > 0
              then (real (count_list xs b) / real (length xs)) *
                   log 2 (real (count_list xs b) / real (length xs)) else 0"
  have "(\<Sum>i \<in> {0..<256}. if counts ! i > 0
           then (real_of_int (counts ! i) / real (length xs)) *
                log 2 (real_of_int (counts ! i) / real (length xs)) else 0) =
        (\<Sum>i \<in> {0..<256}. ?g (of_nat i))"
    by (rule sum.cong) (simp_all add: c)
  also have "\<dots> = (\<Sum>b \<in> UNIV. ?g b)"
    by (rule sum.reindex_bij_betw [OF bij_of_nat_byte])
  also have "\<dots> = (\<Sum>b \<in> {b. count_list xs b > 0}. ?g b)"
    by (rule sum.mono_neutral_right) auto
  also have "\<dots> = (\<Sum>b \<in> {b. count_list xs b > 0}.
          (real (count_list xs b) / real (length xs)) *
          log 2 (real (count_list xs b) / real (length xs)))"
    by (rule sum.cong) simp_all
  finally show ?thesis
    by (simp add: entropyOf_sum shannonEntropy_def)
qed

text \<open>
  C7: the stride is 11, and \<^verbatim>\<open>calculateGridMetrics\<close> returns the Shannon entropy of the
  bytes at the indices \<open>0, 11, 22, \<dots>\<close> and, as zero density, the number of zeros among them
  divided by their number.  (On an empty grid both quotients are \<open>0 / 0\<close>, \<^verbatim>\<open>NaN\<close> in JavaScript
  and 0 here.)
\<close>

theorem gridMetrics_sampled:
  "sampleStep = 11 \<and>
   calculateGridMetrics e =
     (shannonEntropy (sampledBytes (data e)),
      real (count_list (sampledBytes (data e)) 0) / real (length (sampledBytes (data e))))"
proof -
  let ?xs = "sampledBytes (data e)"
  let ?c = "fold tally ?xs (replicate 256 0)"
  have loop: "gridLoop (data e) 0 (replicate 256 0) 0 = (?c, int (length ?xs))"
    by (simp add: gridLoop_eq sampledBytes_def)
  have c: "?c ! k = int (count_list ?xs (of_nat k))" if "k < 256" for k
    using fold_tally_nth [of "replicate 256 0" k ?xs] that by simp
  have ent: "entropyOf ?c (real (length ?xs)) = shannonEntropy ?xs"
    by (rule entropy_of_tally) (rule c)
  have z: "?c ! 0 = int (count_list ?xs 0)" using c [of 0] by simp
  show ?thesis
    by (simp add: sampleStep_eq calculateGridMetrics_def loop ent z)
qed

theorem gridMetrics_sampled_witness:
  "calculateGridMetrics (allocate smallConfig) =
     (shannonEntropy (sampledBytes (data (allocate smallConfig))),
      real (count_list (sampledBytes (data (allocate smallConfig))) 0) /
      real (length (sampledBytes (data (allocate smallConfig)))))"
  using gridMetrics_sampled [of "allocate smallConfig"] by blast

section \<open>The census\<close>
















section \<open>The write-back of an interaction that completes an epoch\<close>

lemma length_wr [simp]: "length (wr a i v) = length a"
  by (simp add: wr_def)


lemma rd_in_range: "0 \<le> i \<Longrightarrow> i < int (length a) \<Longrightarrow> rd a i = Some (a ! nat i)"
  by (simp add: rd_def)

text \<open>The interpreter keeps the length of the tape.\<close>

lemma length_finish [simp]: "length (tape (finish v s)) = length (tape s)"
  by (simp add: finish_def)





text \<open>Mutation and the end of an epoch keep the length of the grid.\<close>

lemma length_mutateLoop: "length (fst (mutateLoop n tb d r)) = length d"
  by (induction n arbitrary: d r) (simp_all add: split_def)

lemma length_mutate: "length (data (mutate e)) = length (data e)"
  by (simp add: mutate_def split_def Let_def length_mutateLoop)


lemma writeBack_fold: "writeBack d tSize idxA idxB t = fold (wbStep tSize idxA idxB t) [0..<nat tSize] d"
  by (simp add: writeBack_def wbStep_def [abs_def])


lemma length_wb_fold: "length (fold (wbStep tSize idxA idxB t) xs d) = length d"
  by (induction xs arbitrary: d) (simp_all add: wbStep_def)












lemma completeEpoch_frame:
  "config (completeEpoch e) = config e" "width (completeEpoch e) = width e"
  "height (completeEpoch e) = height e" "epochSize (completeEpoch e) = epochSize e"
  "length (data (completeEpoch e)) = length (data e)"
  by (simp_all add: completeEpoch_def Let_def mutate_frame length_mutate)




lemma reset_data_rng:
  "data (reset e) = fst (if seedingMode (config e) = SeedBalanced
                         then fillBalanced (length (data e)) (seed (config e))
                         else fillRandom (length (data e)) (seed (config e)))"
  "rng (reset e) = snd (if seedingMode (config e) = SeedBalanced
                        then fillBalanced (length (data e)) (seed (config e))
                        else fillRandom (length (data e)) (seed (config e)))"
  "epochInteractions (reset e) = 0"
  by (simp_all add: reset_def split_def Let_def)













section \<open>Determinism\<close>




lemma length_writeBack: "length (writeBack d tSize a b t) = length d"
  by (simp add: writeBack_fold length_wb_fold)

lemma runInteraction_frame_fields:
  "config (runInteraction e r a b) = config e" "width (runInteraction e r a b) = width e"
  "height (runInteraction e r a b) = height e" "epochSize (runInteraction e r a b) = epochSize e"
  "length (data (runInteraction e r a b)) = length (data e)"
  by (simp_all add: runInteraction_def Let_def completeEpoch_frame length_writeBack)

lemma interact_frame:
  assumes "interact e = Some e'"
  shows "config e' = config e \<and> width e' = width e \<and> height e' = height e \<and>
         epochSize e' = epochSize e \<and> length (data e') = length (data e)"
proof (cases "chooseAgents e")
  case None
  with assms show ?thesis by (simp add: interact_def)
next
  case (Some ag)
  show ?thesis
  proof (cases ag)
    case (Abort r)
    with Some assms have "e' = e\<lparr>rng := r\<rparr>" by (simp add: interact_def)
    then show ?thesis by simp
  next
    case (Chosen x y nx ny r)
    with Some assms have "e' = runInteraction e r ((y * width e + x) * tapeSize (config e))
                                ((ny * width e + nx) * tapeSize (config e))"
      by (simp add: interact_def)
    then show ?thesis by (simp add: runInteraction_frame_fields)
  qed
qed

lemma step_frame:
  "step n e = Some e' \<Longrightarrow>
   config e' = config e \<and> width e' = width e \<and> height e' = height e \<and>
   epochSize e' = epochSize e \<and> length (data e') = length (data e)"
proof (induction n arbitrary: e)
  case 0
  then show ?case by simp
next
  case (Suc n)
  from Suc.prems obtain e1 where i: "interact e = Some e1" and s: "step n e1 = Some e'"
    by (auto split: option.splits)
  from interact_frame [OF i] Suc.IH [OF s] show ?case by simp
qed



section \<open>Further properties of the engine\<close>

text \<open>Instances of X1 and X2 on the 4 by 2 grid.\<close>

lemma smallConfig_engine:
  "topology (config (reset (allocate smallConfig))) = Spatial"
  "tapeSize (config (reset (allocate smallConfig))) = 2"
  "width (reset (allocate smallConfig)) = 4" "height (reset (allocate smallConfig)) = 2"
  "length (data (reset (allocate smallConfig))) = 8 * 2"
  by (simp_all add: reset_frame allocate_def smallConfig_def)

theorem getCellAt_one_wrap_witness:
  "getCellAt (reset (allocate smallConfig)) (- 1) (- 2) =
     take 2 (drop 6 (data (reset (allocate smallConfig))))"
  using getCellAt_one_wrap [of "reset (allocate smallConfig)" "- 1" "- 2"]
  by (simp add: smallConfig_engine)

theorem interact_spatial_total_witness:
  "interact (reset (allocate smallConfig)) \<noteq> None"
  using interact_spatial_total [of "reset (allocate smallConfig)"]
  by (simp add: smallConfig_engine)

text \<open>
  X3: the grid buffer of an engine constructed from \<open>c\<close> has length \<open>W * H * T\<close>, and
  keeps it through any number of interactions.
\<close>

theorem grid_length_invariant:
  assumes "new c = Inr e0" and "step n e0 = Some e"
  shows "int (length (data e)) = gridWidth c * gridHeight c * tapeSize c"
  using new_Inr [OF assms(1)] step_frame [OF assms(2)] by simp

theorem grid_length_invariant_witness:
  "new smallConfig = Inr (reset (allocate smallConfig)) \<and>
   step 0 (reset (allocate smallConfig)) = Some (reset (allocate smallConfig)) \<and>
   int (length (data (reset (allocate smallConfig)))) = 16"
proof -
  have n: "new smallConfig = Inr (reset (allocate smallConfig))"
    by (simp add: new_def smallConfig_def)
  have s: "step 0 (reset (allocate smallConfig)) = Some (reset (allocate smallConfig))" by simp
  from grid_length_invariant [OF n s] n s show ?thesis
    by (simp add: smallConfig_def)
qed

text \<open>
  X4: an aborted spatial pick (\<open>dx = 0\<close> and \<open>dy = 0\<close>) changes nothing of the engine but the
  state of the generator, which has advanced by four draws: the grid, the stats, the history
  and the counters of the epoch are as before.
\<close>

theorem spatial_abort_changes_nothing:
  assumes "chooseAgents e = Some (Abort r)"
  shows "interact e = Some (e\<lparr>rng := r\<rparr>)"
  using assms by (simp add: interact_def)

lemma abort_draws:
  "snd (fillBalanced (Suc 0) 47) = 1831565860"
  "prngNext 1831565860 = (413928426, 3663131673)"
  "prngNext 3663131673 = (2026970400, 5494697486)"
  "prngNext 5494697486 = (2338533636, 7326263299)"
  "prngNext 7326263299 = (2149901276, 9157829112)"
  by code_simp+

lemma abortConfig_engine:
  "topology (config (reset (allocate abortConfig))) = Spatial"
  "width (reset (allocate abortConfig)) = 1" "height (reset (allocate abortConfig)) = 1"
  "rng (reset (allocate abortConfig)) = 1831565860"
  by (simp_all add: reset_frame reset_data_rng allocate_def abortConfig_def abort_draws
        del: fillBalanced.simps)

lemma abort_agents: "chooseAgents (reset (allocate abortConfig)) = Some (Abort 9157829112)"
  by (simp add: chooseAgents_def abortConfig_engine abort_draws pick_one pick_def Let_def)

theorem spatial_abort_changes_nothing_witness:
  "chooseAgents (reset (allocate abortConfig)) = Some (Abort 9157829112) \<and>
   interact (reset (allocate abortConfig)) =
     Some ((reset (allocate abortConfig))\<lparr>rng := 9157829112\<rparr>)"
  using spatial_abort_changes_nothing [OF abort_agents] abort_agents by simp

end
